theory Spec2Isabelle
  imports Main
begin

section \<open>Data model of package tunnel\<close>

text \<open>
  \<^verbatim>\<open>time.Duration\<close> is a count of nanoseconds; \<^verbatim>\<open>time.Second\<close> is \<open>10^9\<close> of them.
\<close>

type_synonym duration = int

definition Second :: duration where
  "Second = 1000000000"

text \<open>
  Go's \<^verbatim>\<open>error\<close> values. \<open>External\<close> is an error handed back by a library call
  (net, ssh, os, the key and config readers); the others are the errors the package
  builds with \<^verbatim>\<open>fmt.Errorf\<close>, one constructor per format string, holding the
  format's arguments. A nil error is \<open>None\<close> of \<open>error option\<close>.
\<close>

datatype error =
    External string
  | ErrAccessing string error          \<comment> \<open>error accessing %s: %v\<close>
  | HostMissing                        \<comment> \<open>server host has to be provided ...\<close>
  | NoHostname string                  \<comment> \<open>no server hostname (ip) could be found for server %s\<close>
  | NoUser string                      \<comment> \<open>no user could be found for server %s\<close>
  | NoHomeDir error                    \<comment> \<open>could not obtain user home directory: %v\<close>
  | ErrReadingKey string error         \<comment> \<open>error while reading key %s: %v\<close>
  | InvalidChannel string string       \<comment> \<open>invalid ssh channel: local=%s, remote=%s\<close>
  | NoRemoteGiven                      \<comment> \<open>cannot create a tunnel without at least one remote address\<close>
  | ErrReadingConfig error             \<comment> \<open>error reading ssh configuration file: %v\<close>
  | LocalForwardNotFound string        \<comment> \<open>LocalForward could not be found ... for host %s\<close>
  | ErrLocalConnection error           \<comment> \<open>error while establishing local connection: %v\<close>
  | MissingSSHConnection               \<comment> \<open>tunnel channel can't be established: missing connection ...\<close>
  | RemoteDialError error              \<comment> \<open>remote dial error: %s\<close>
  | ErrClientConfig error              \<comment> \<open>error generating ssh client config: %s\<close>
  | ErrConnection                      \<comment> \<open>error while connection to ssh server\<close>
  | ErrKnownHosts string error         \<comment> \<open>error while parsing 'known_hosts' file: %s: %v\<close>
  | KnownHostsNoHomeDir error          \<comment> \<open>could not obtain user home directory :%v\<close>
  | IndexOutOfRange                    \<comment> \<open>the runtime's panic on a slice index\<close>

text \<open>
  The ssh configuration file reader (\<^verbatim>\<open>NewSSHConfigFile\<close>, \<^verbatim>\<open>SSHConfigFile.Get\<close>,
  \<^verbatim>\<open>SSHHost\<close>, \<^verbatim>\<open>LocalForward\<close>) and the key reader (\<^verbatim>\<open>PemKey\<close>) are declared in
  other files of the package. Their types are given here by the fields this file reads,
  and their results are parameters of the model, collected in \<open>env\<close> below.
\<close>

record LocalForward =
  LFLocal :: string
  LFRemote :: string

record SSHHost =
  Hostname :: string
  Port :: string
  HostUser :: string
  HostKey :: string
  HostLocalForward :: "LocalForward option"

type_synonym PemKey = nat
type_synonym Signer = nat

text \<open>
  \<^verbatim>\<open>Server\<close>, with the five fields the struct declares. It holds no timeout.
\<close>

record Server =
  Name :: string
  Address :: string
  User :: string
  Key :: PemKey
  Insecure :: bool

text \<open>
  \<^verbatim>\<open>SSHChannel\<close>: the listener and the accepted connection are handles, nil when unset.
\<close>

record SSHChannel =
  Local :: string
  Remote :: string
  listener :: "nat option"
  conn :: "nat option"

text \<open>\<^verbatim>\<open>ssh.ClientConfig\<close>, by the fields \<^verbatim>\<open>sshClientConfig\<close> sets.\<close>

datatype HostKeyCallback = AcceptAnyHostKey | KnownHosts string

record ClientConfig =
  cfgUser :: string
  cfgAuth :: "Signer list"
  cfgHostKeyCallback :: HostKeyCallback
  cfgTimeout :: duration

text \<open>
  \<^verbatim>\<open>Tunnel\<close>. A channel of capacity one is its buffer: \<open>None\<close> when empty,
  \<open>Some v\<close> when it holds \<open>v\<close>; \<^verbatim>\<open>done\<close> and \<^verbatim>\<open>reconnect\<close> carry errors, nil
  included. The field \<^verbatim>\<open>done\<close> is written \<open>doneCh\<close>. The client is the handle of
  the \<^verbatim>\<open>*ssh.Client\<close>, nil when unset.
\<close>

record Tunnel =
  Ready :: "bool option"
  KeepAliveInterval :: duration
  ConnectionRetries :: int
  WaitAndRetry :: duration
  server :: Server
  channels :: "SSHChannel list"
  doneCh :: "error option option"
  client :: "nat option"
  stopKeepAlive :: "bool option"
  reconnect :: "error option option"
  watchConn :: "bool option"

text \<open>
  What happens while a tunnel runs, in order: every \<^verbatim>\<open>ssh.Dial\<close> call, every
  \<^verbatim>\<open>time.Sleep\<close> of the retry loop, every \<^verbatim>\<open>Close\<close> of an ssh client and every
  completed send on \<^verbatim>\<open>Ready\<close>.
\<close>

datatype event = EvDial | EvSleep duration | EvClose nat | EvReady

text \<open>
  The outside world: the results of the calls that leave the package, an error of
  theirs given by its message (it becomes \<open>External\<close> of that message inside the
  package). \<open>net_Listen\<close> answers with the listener's handle and the address it is
  bound to. \<open>ssh_Dial\<close> is given the address, the client configuration and the history
  so far, and answers with an error or the handle of a new client.
\<close>

record env =
  NewSSHConfigFile :: "string + (string \<Rightarrow> SSHHost)"
  UserHomeDir :: "string + string"
  NewPemKey :: "string \<Rightarrow> string \<Rightarrow> string + PemKey"
  Key_Parse :: "PemKey \<Rightarrow> string + Signer"
  knownhosts_New :: "string \<Rightarrow> string option"
  net_Listen :: "string \<Rightarrow> string + (nat \<times> string)"
  ssh_Dial :: "string \<Rightarrow> ClientConfig \<Rightarrow> event list \<Rightarrow> string + nat"

section \<open>Reconciliation and address helpers\<close>

definition RandomPortAddress :: string where
  "RandomPortAddress = ''127.0.0.1:0''"

definition reconcile :: "string \<Rightarrow> string \<Rightarrow> string" where
  "reconcile precident subsequent = (if precident \<noteq> '''' then precident else subsequent)"

text \<open>\<^verbatim>\<open>strings.HasPrefix(address, ":")\<close> and \<^verbatim>\<open>fmt.Sprintf("127.0.0.1%s", address)\<close>.\<close>

definition expandAddress :: "string \<Rightarrow> string" where
  "expandAddress address =
     (if take 1 address = '':'' then ''127.0.0.1'' @ address else address)"

text \<open>\<^verbatim>\<open>strings.Split(s, ":")\<close>: the pieces of \<open>s\<close> between the separators, at least one.\<close>

fun strings_Split :: "string \<Rightarrow> char \<Rightarrow> string list" where
  "strings_Split [] sep = [[]]"
| "strings_Split (c # cs) sep =
     (if c = sep then [] # strings_Split cs sep
      else (case strings_Split cs sep of
              [] \<Rightarrow> [[c]]
            | p # ps \<Rightarrow> (c # p) # ps))"

text \<open>\<^verbatim>\<open>strings.Join(elems, "/")\<close>.\<close>

fun join_slash :: "string list \<Rightarrow> string" where
  "join_slash [] = []"
| "join_slash [p] = p"
| "join_slash (p # q # ps) = p @ ''/'' @ join_slash (q # ps)"

text \<open>
  \<^verbatim>\<open>filepath.Clean\<close> on a Unix path. The path is read element by element, with the
  elements kept so far in \<open>out\<close>, last one first: an empty element and \<open>.\<close> are dropped;
  \<open>..\<close> removes the last element kept when that is a name, is dropped at the root of a
  rooted path, and is kept otherwise (then \<open>out\<close> holds only \<open>..\<close>); a name is kept. The
  result is the elements kept, joined with slashes, after the slash of a rooted path; an
  empty result is \<open>.\<close>.
\<close>

fun clean_elems :: "bool \<Rightarrow> string list \<Rightarrow> string list \<Rightarrow> string list" where
  "clean_elems rooted out [] = rev out"
| "clean_elems rooted out (e # es) =
     (if e = '''' \<or> e = ''.'' then clean_elems rooted out es
      else if e = ''..''
      then (case out of
              [] \<Rightarrow> (if rooted then clean_elems rooted [] es
                     else clean_elems rooted [''..''] es)
            | d # ds \<Rightarrow> (if d = ''..'' then clean_elems rooted (e # out) es
                         else clean_elems rooted ds es))
      else clean_elems rooted (e # out) es)"

definition filepath_Clean :: "string \<Rightarrow> string" where
  "filepath_Clean path =
     (if path = '''' then ''.''
      else (let rooted = (take 1 path = ''/'');
                cleaned = (if rooted then ''/'' else '''') @
                          join_slash (clean_elems rooted [] (strings_Split path CHR ''/''))
            in if cleaned = '''' then ''.'' else cleaned))"

text \<open>
  \<^verbatim>\<open>filepath.Join\<close>: from the first element that is not empty on, the elements are
  joined with slashes and the result is cleaned; with no such element the result is
  empty.
\<close>

definition filepath_Join :: "string list \<Rightarrow> string" where
  "filepath_Join elems =
     (case dropWhile (\<lambda>e. e = '''') elems of
        [] \<Rightarrow> ''''
      | e # es \<Rightarrow> filepath_Clean (join_slash (e # es)))"

section \<open>NewServer\<close>

definition splitHostPort :: "string \<Rightarrow> string \<times> string" where
  "splitHostPort address =
     (if CHR '':'' \<in> set address
      then (let args = strings_Split address CHR '':'' in (args ! 0, args ! 1))
      else (address, ''''))"

definition defaultKey :: "env \<Rightarrow> string \<Rightarrow> error + string" where
  "defaultKey env key =
     (if key = ''''
      then (case UserHomeDir env of
              Inl err \<Rightarrow> Inl (NoHomeDir (External err))
            | Inr home \<Rightarrow> Inr (filepath_Join [home, ''.ssh'', ''id_rsa'']))
      else Inr key)"

definition NewServer :: "env \<Rightarrow> string \<Rightarrow> string \<Rightarrow> string \<Rightarrow> error + Server" where
  "NewServer env user address key =
     (let (host, port) = splitHostPort address in
      case NewSSHConfigFile env of
        Inl err \<Rightarrow> Inl (ErrAccessing host (External err))
      | Inr c \<Rightarrow>
         (let h = c host;
              hostname = reconcile (Hostname h) host;
              port = reconcile port (Port h);
              user = reconcile user (HostUser h);
              key = reconcile key (HostKey h)
          in if host = '''' then Inl HostMissing
             else if hostname = '''' then Inl (NoHostname host)
             else let port = (if port = '''' then ''22'' else port)
             in if user = '''' then Inl (NoUser host)
             else (case defaultKey env key of
                     Inl err \<Rightarrow> Inl err
                   | Inr key \<Rightarrow>
                      (case NewPemKey env key '''' of
                         Inl err \<Rightarrow> Inl (ErrReadingKey key (External err))
                       | Inr pk \<Rightarrow>
                           Inr \<lparr>Name = host, Address = hostname @ '':'' @ port,
                                User = user, Key = pk, Insecure = False\<rparr>))))"

section \<open>BuildSSHChannels\<close>

definition getLocalForward :: "env \<Rightarrow> string \<Rightarrow> error + LocalForward" where
  "getLocalForward env serverName =
     (case NewSSHConfigFile env of
        Inl err \<Rightarrow> Inl (ErrReadingConfig (External err))
      | Inr cfg \<Rightarrow>
         (case HostLocalForward (cfg serverName) of
            None \<Rightarrow> Inl (LocalForwardNotFound serverName)
          | Some lf \<Rightarrow> Inr lf))"

text \<open>
  The first half of \<^verbatim>\<open>BuildSSHChannels\<close>: the local and remote lists after the
  \<^verbatim>\<open>if ... else\<close> that fetches LocalForward, truncates the locals or pads them.
\<close>

definition pairAddresses ::
  "env \<Rightarrow> string \<Rightarrow> string list \<Rightarrow> string list \<Rightarrow> error + (string list \<times> string list)" where
  "pairAddresses env serverName local remote =
     (if length local = 0 \<and> length remote = 0
      then (case getLocalForward env serverName of
              Inl err \<Rightarrow> Inl err
            | Inr lf \<Rightarrow> Inr ([LFLocal lf], [LFRemote lf]))
      else (let lSize = length local; rSize = length remote
            in if lSize > rSize
               then (if rSize = 0 then Inl NoRemoteGiven
                     else Inr (take rSize local, remote))
               else if lSize < rSize
               then Inr (map (\<lambda>i. if i < lSize
                                   then (if local ! i \<noteq> '''' then local ! i
                                         else RandomPortAddress)
                                   else RandomPortAddress) [0..<rSize],
                         remote)
               else Inr (local, remote)))"

text \<open>
  The second half: both lists are canonicalized in place and paired by index over the
  remotes; \<^verbatim>\<open>local[i]\<close> past the end of the locals is a run-time panic.
\<close>

definition BuildSSHChannels ::
  "env \<Rightarrow> string \<Rightarrow> string list \<Rightarrow> string list \<Rightarrow> error + SSHChannel list" where
  "BuildSSHChannels env serverName local remote =
     (case pairAddresses env serverName local remote of
        Inl err \<Rightarrow> Inl err
      | Inr (local, remote) \<Rightarrow>
         (let local = map expandAddress local;
              remote = map expandAddress remote
          in if length local < length remote then Inl IndexOutOfRange
             else Inr (map (\<lambda>i. \<lparr>Local = local ! i, Remote = remote ! i,
                                  listener = None, conn = None\<rparr>)
                           [0..<length remote])))"

section \<open>New\<close>

definition New :: "Server \<Rightarrow> SSHChannel list \<Rightarrow> error + Tunnel" where
  "New srv chs =
     (case find (\<lambda>channel. Local channel = '''' \<or> Remote channel = '''') chs of
        Some channel \<Rightarrow> Inl (InvalidChannel (Local channel) (Remote channel))
      | None \<Rightarrow>
          Inr \<lparr>Ready = None, KeepAliveInterval = 0, ConnectionRetries = 0, WaitAndRetry = 0,
               server = srv, channels = chs, doneCh = None, client = None,
               stopKeepAlive = None, reconnect = None, watchConn = None\<rparr>)"

section \<open>The ssh client configuration\<close>

definition knownHostsCallback :: "env \<Rightarrow> bool \<Rightarrow> error + HostKeyCallback" where
  "knownHostsCallback env insecure =
     (if insecure then Inr AcceptAnyHostKey
      else (case UserHomeDir env of
              Inl err \<Rightarrow> Inl (KnownHostsNoHomeDir (External err))
            | Inr home \<Rightarrow>
               (let knownHostFile = filepath_Join [home, ''.ssh'', ''known_hosts'']
                in case knownhosts_New env knownHostFile of
                     Some err \<Rightarrow> Inl (ErrKnownHosts knownHostFile (External err))
                   | None \<Rightarrow> Inr (KnownHosts knownHostFile))))"

definition sshClientConfig :: "env \<Rightarrow> Server \<Rightarrow> error + ClientConfig" where
  "sshClientConfig env srv =
     (case Key_Parse env (Key srv) of
        Inl err \<Rightarrow> Inl (External err)
      | Inr signer \<Rightarrow>
         (case knownHostsCallback env (Insecure srv) of
            Inl err \<Rightarrow> Inl err
          | Inr clb \<Rightarrow>
              Inr \<lparr>cfgUser = User srv, cfgAuth = [signer], cfgHostKeyCallback = clb,
                   cfgTimeout = 3 * Second\<rparr>))"

section \<open>A running tunnel\<close>

text \<open>
  \<^verbatim>\<open>Start\<close> runs in the caller's goroutine and starts others with \<^verbatim>\<open>go\<close>. The model
  is a step function over the state of all of them: the tunnel's fields, the place the
  \<^verbatim>\<open>Start\<close> goroutine has reached, the goroutines started so far, the wait groups of
  \<^verbatim>\<open>connect\<close> and the history of events. A schedule (a list of actions) says which
  goroutine moves next and what the outside world answers; an action that names a
  goroutine which cannot move (its channel is full or empty) leaves the state as it is.
  A goroutine's step runs from one channel operation or blocking call to the next; in
  particular \<^verbatim>\<open>Listen\<close> and the whole retry loop of \<^verbatim>\<open>dial\<close> are one step of the
  \<^verbatim>\<open>Start\<close> goroutine. A method called on a nil \<^verbatim>\<open>*ssh.Client\<close> (\<^verbatim>\<open>Close\<close>,
  \<^verbatim>\<open>SendRequest\<close>, \<^verbatim>\<open>Wait\<close>) and \<^verbatim>\<open>time.NewTicker\<close> with an interval that is not
  positive panic, and a panic ends the program: no goroutine moves after it. The
  counter \<^verbatim>\<open>retries\<close> is a natural number and \<^verbatim>\<open>ConnectionRetries\<close> an integer, without
  the wrap-around of Go's \<^verbatim>\<open>int\<close>.

  Where the \<^verbatim>\<open>Start\<close> goroutine stands: before a call of \<^verbatim>\<open>connect\<close>; inside
  \<^verbatim>\<open>connect\<close> at one of its two sends; at the \<^verbatim>\<open>select\<close>; at one of the two sends
  of the reconnect arm or of the done arm; returned; stopped by a nil pointer
  dereference (which ends the whole program); or inside a \<^verbatim>\<open>dial\<close> that never returns.
\<close>

datatype main_pc =
    AtConnect
  | SendDone error
  | SendReconnect error
  | AtSelect
  | ReStopKeepAlive
  | ReWatchConn
  | DoneStopKeepAlive "error option"
  | DoneWatchConn "error option"
  | Returned "error option"
  | Panicked
  | Hung

text \<open>
  The other goroutines, each by the place it has reached:
  \<^item> \<^verbatim>\<open>keepAlive\<close>: before \<^verbatim>\<open>time.NewTicker\<close>, then in its \<^verbatim>\<open>select\<close>;
  \<^item> \<^verbatim>\<open>watchForDisconnect\<close>: in its \<^verbatim>\<open>select\<close>, with the client whose \<^verbatim>\<open>Wait\<close> its
    inner goroutine calls and the buffer of \<^verbatim>\<open>wc\<close>; then at \<^verbatim>\<open>t.reconnect <- err\<close>;
  \<^item> the goroutine of \<^verbatim>\<open>connect\<close> that waits for the wait group (by its number) and
    then stands at \<^verbatim>\<open>t.Ready <- true\<close>;
  \<^item> the goroutine of \<^verbatim>\<open>connect\<close> for one channel (by its index): before
    \<^verbatim>\<open>once.Do\<close>, then inside \<^verbatim>\<open>startChannel\<close> at \<^verbatim>\<open>Accept\<close>, then at
    \<^verbatim>\<open>t.done <- err\<close>;
  \<^item> \<^verbatim>\<open>copyConn\<close>, which only copies and logs;
  \<^item> a goroutine that has returned.
\<close>

datatype goroutine =
    KeepAliveStart
  | KeepAliveLoop
  | WatchLoop "nat option" "error option option"
  | WatchSend "error option"
  | ReadyWait nat
  | ReadySend
  | ChannelStart nat nat
  | ChannelAccept nat
  | ChannelSendDone error
  | Copying
  | Exited

record system = Tunnel +
  main :: main_pc
  goroutines :: "goroutine list"
  waitGroups :: "nat list"
  trace :: "event list"

definition go :: "goroutine \<Rightarrow> system \<Rightarrow> system" where
  "go g t = t\<lparr>goroutines := goroutines t @ [g]\<rparr>"

subsection \<open>Listen\<close>

fun Listen_channels :: "env \<Rightarrow> SSHChannel list \<Rightarrow> error option \<times> SSHChannel list" where
  "Listen_channels env [] = (None, [])"
| "Listen_channels env (ch # chs) =
     (if listener ch = None
      then (case net_Listen env (Local ch) of
              Inl err \<Rightarrow> (Some (External err), ch # chs)
            | Inr (l, addr) \<Rightarrow>
               (let (r, chs') = Listen_channels env chs
                in (r, ch\<lparr>listener := Some l, Local := addr\<rparr> # chs')))
      else (let (r, chs') = Listen_channels env chs in (r, ch # chs')))"

definition Listen :: "env \<Rightarrow> system \<Rightarrow> error option \<times> system" where
  "Listen env t =
     (let (err, chs) = Listen_channels env (channels t) in (err, t\<lparr>channels := chs\<rparr>))"

subsection \<open>dial\<close>

text \<open>
  The retry loop of \<^verbatim>\<open>dial\<close>, from the top of the \<^verbatim>\<open>for\<close> with the current value of
  \<^verbatim>\<open>retries\<close>. It answers \<open>Some (Some err, t)\<close> when the loop returns the error out of
  \<^verbatim>\<open>dial\<close>, \<open>Some (None, t)\<close> when it leaves the loop by \<^verbatim>\<open>break\<close>, and \<open>None\<close> when
  it runs forever.
\<close>

partial_function (option) dial_loop ::
  "env \<Rightarrow> ClientConfig \<Rightarrow> nat \<Rightarrow> system \<Rightarrow> (error option \<times> system) option" where
  "dial_loop env c retries t =
     (if ConnectionRetries t > 0 \<and> int retries = ConnectionRetries t
      then Some (Some ErrConnection, t)
      else (case ssh_Dial env (Address (server t)) c (trace t) of
              Inl err \<Rightarrow>
                (let t = t\<lparr>client := None, trace := trace t @ [EvDial]\<rparr>
                 in if ConnectionRetries t < 0 then Some (None, t)
                    else dial_loop env c (retries + 1)
                           (t\<lparr>trace := trace t @ [EvSleep (WaitAndRetry t)]\<rparr>))
            | Inr cl \<Rightarrow> Some (None, t\<lparr>client := Some cl, trace := trace t @ [EvDial]\<rparr>)))"

declare dial_loop.simps [code]

definition dial :: "env \<Rightarrow> system \<Rightarrow> (error option \<times> system) option" where
  "dial env t =
     (let t = (case client t of
                 Some cl \<Rightarrow> t\<lparr>trace := trace t @ [EvClose cl]\<rparr>
               | None \<Rightarrow> t)
      in case sshClientConfig env (server t) of
           Inl err \<Rightarrow> Some (Some (ErrClientConfig err), t)
         | Inr c \<Rightarrow>
            (case dial_loop env c 0 t of
               None \<Rightarrow> None
             | Some (Some err, t) \<Rightarrow> Some (Some err, t)
             | Some (None, t) \<Rightarrow>
                (let t = go KeepAliveStart t;
                     t = (if ConnectionRetries t > 0
                          then go (WatchLoop (client t) None) t else t)
                 in Some (None, t))))"

subsection \<open>connect\<close>

text \<open>
  \<^verbatim>\<open>connect\<close> up to its first channel operation: \<^verbatim>\<open>Listen\<close>, \<^verbatim>\<open>dial\<close>, the new wait
  group and the goroutines. The whole of \<^verbatim>\<open>dial\<close> is one step of the \<^verbatim>\<open>Start\<close>
  goroutine.
\<close>

definition connect :: "env \<Rightarrow> system \<Rightarrow> system" where
  "connect env t =
     (case Listen env t of
        (Some err, t) \<Rightarrow> t\<lparr>main := SendDone err\<rparr>
      | (None, t) \<Rightarrow>
         (case dial env t of
            None \<Rightarrow> t\<lparr>main := Hung\<rparr>
          | Some (Some err, t) \<Rightarrow> t\<lparr>main := SendReconnect err\<rparr>
          | Some (None, t) \<Rightarrow>
             (let wg = length (waitGroups t);
                  t = t\<lparr>waitGroups := waitGroups t @ [length (channels t)]\<rparr>;
                  t = go (ReadyWait wg) t;
                  t = foldl (\<lambda>t ch. go (ChannelStart ch wg) t) t [0..<length (channels t)]
              in t\<lparr>main := AtSelect\<rparr>)))"

subsection \<open>Start\<close>

definition Start_init :: "Tunnel \<Rightarrow> system" where
  "Start_init tun = Tunnel.extend tun (system.fields AtConnect [] [] [])"

text \<open>\<^verbatim>\<open>t.client.Close()\<close>: on a nil client a nil pointer dereference.\<close>

definition closeClient :: "main_pc \<Rightarrow> system \<Rightarrow> system" where
  "closeClient next t =
     (case client t of
        None \<Rightarrow> t\<lparr>main := Panicked\<rparr>
      | Some cl \<Rightarrow> t\<lparr>trace := trace t @ [EvClose cl], main := next\<rparr>)"

text \<open>
  One step of the \<^verbatim>\<open>Start\<close> goroutine, to its next channel operation. When both arms
  of the \<^verbatim>\<open>select\<close> are ready Go takes either; \<open>pick\<close> says whether the reconnect arm
  is the one taken.
\<close>

definition Start_step :: "env \<Rightarrow> bool \<Rightarrow> system \<Rightarrow> system" where
  "Start_step env pick t =
     (case main t of
        AtConnect \<Rightarrow> connect env t
      | SendDone err \<Rightarrow>
          (if doneCh t = None then t\<lparr>doneCh := Some (Some err), main := AtSelect\<rparr> else t)
      | SendReconnect err \<Rightarrow>
          (if reconnect t = None then t\<lparr>reconnect := Some (Some err), main := AtSelect\<rparr>
           else t)
      | AtSelect \<Rightarrow>
          (if reconnect t \<noteq> None \<and> (pick \<or> doneCh t = None)
           then (case reconnect t of
                   None \<Rightarrow> t
                 | Some err \<Rightarrow>
                     (if err \<noteq> None then t\<lparr>reconnect := None, main := ReStopKeepAlive\<rparr>
                      else t\<lparr>reconnect := None\<rparr>))
           else (case doneCh t of
                   None \<Rightarrow> t
                 | Some err \<Rightarrow>
                     (if client t \<noteq> None
                      then t\<lparr>doneCh := None, main := DoneStopKeepAlive err\<rparr>
                      else t\<lparr>doneCh := None, main := Returned err\<rparr>)))
      | ReStopKeepAlive \<Rightarrow>
          (if stopKeepAlive t = None then t\<lparr>stopKeepAlive := Some True, main := ReWatchConn\<rparr>
           else t)
      | ReWatchConn \<Rightarrow>
          (if watchConn t = None then closeClient AtConnect (t\<lparr>watchConn := Some False\<rparr>)
           else t)
      | DoneStopKeepAlive err \<Rightarrow>
          (if stopKeepAlive t = None
           then t\<lparr>stopKeepAlive := Some True, main := DoneWatchConn err\<rparr>
           else t)
      | DoneWatchConn err \<Rightarrow>
          (if watchConn t = None then closeClient (Returned err) (t\<lparr>watchConn := Some False\<rparr>)
           else t)
      | Returned err \<Rightarrow> t
      | Panicked \<Rightarrow> t
      | Hung \<Rightarrow> t)"

subsection \<open>The goroutines\<close>

definition goroutine_at :: "system \<Rightarrow> nat \<Rightarrow> goroutine" where
  "goroutine_at t i = (if i < length (goroutines t) then goroutines t ! i else Exited)"

definition become :: "nat \<Rightarrow> goroutine \<Rightarrow> system \<Rightarrow> system" where
  "become i g t = t\<lparr>goroutines := (goroutines t)[i := g]\<rparr>"

text \<open>
  \<^verbatim>\<open>startChannel\<close> for the channel of index \<open>ch\<close>, given what \<^verbatim>\<open>Accept\<close> returns and
  what \<^verbatim>\<open>t.client.Dial\<close> would return.
\<close>

definition startChannel ::
  "(string + nat) \<Rightarrow> string option \<Rightarrow> nat \<Rightarrow> system \<Rightarrow> error option \<times> system" where
  "startChannel accepted dialed ch t =
     (case accepted of
        Inl err \<Rightarrow>
          (Some (ErrLocalConnection (External err)),
           t\<lparr>channels := (channels t)[ch := (channels t ! ch)\<lparr>conn := None\<rparr>]\<rparr>)
      | Inr c \<Rightarrow>
          (let t = t\<lparr>channels := (channels t)[ch := (channels t ! ch)\<lparr>conn := Some c\<rparr>]\<rparr>
           in if client t = None then (Some MissingSSHConnection, t)
              else (case dialed of
                      Some err \<Rightarrow> (Some (RemoteDialError (External err)), t)
                    | None \<Rightarrow> (None, go Copying (go Copying t)))))"

text \<open>
  The actions of a schedule:
  \<^item> \<open>Main pick\<close>: the \<^verbatim>\<open>Start\<close> goroutine takes a step;
  \<^item> \<open>Run i\<close>: goroutine \<open>i\<close> goes on from where it stands (the start of \<^verbatim>\<open>keepAlive\<close>,
    the wait for the wait group, \<^verbatim>\<open>once.Do\<close>, a pending send);
  \<^item> \<open>Tick i res\<close>: the ticker of \<^verbatim>\<open>keepAlive\<close> fires and \<^verbatim>\<open>SendRequest\<close> gives \<open>res\<close>;
  \<^item> \<open>TakeStop i\<close>: \<^verbatim>\<open>keepAlive\<close> takes its \<^verbatim>\<open>stopKeepAlive\<close> arm;
  \<^item> \<open>SessionEnds i res\<close>: the \<^verbatim>\<open>Wait\<close> of watcher \<open>i\<close> returns \<open>res\<close>, sent on \<^verbatim>\<open>wc\<close>;
  \<^item> \<open>TakeWatchConn i\<close>, \<open>TakeWc i\<close>: the watcher takes that arm of its \<^verbatim>\<open>select\<close>;
  \<^item> \<open>Accept i accepted dialed\<close>: the \<^verbatim>\<open>Accept\<close> of the channel goroutine \<open>i\<close> returns;
  \<^item> \<open>Stop\<close>: another goroutine calls \<^verbatim>\<open>t.Stop()\<close>;
  \<^item> \<open>ReceiveReady\<close>: an observer receives from \<^verbatim>\<open>Ready\<close>.
\<close>

datatype action =
    Main bool
  | Run nat
  | Tick nat "string option"
  | TakeStop nat
  | SessionEnds nat "string option"
  | TakeWatchConn nat
  | TakeWc nat
  | Accept nat "string + nat" "string option"
  | Stop
  | ReceiveReady

text \<open>
  A goroutine goes on from where it stands. \<^verbatim>\<open>waitgroup.Done()\<close> on a counter that is
  already zero is a panic of the \<^verbatim>\<open>sync\<close> package.
\<close>

definition run_goroutine :: "nat \<Rightarrow> system \<Rightarrow> system" where
  "run_goroutine i t =
     (case goroutine_at t i of
        KeepAliveStart \<Rightarrow>
          (if KeepAliveInterval t \<le> 0 then t\<lparr>main := Panicked\<rparr>
           else become i KeepAliveLoop t)
      | ReadyWait wg \<Rightarrow>
          (if wg < length (waitGroups t) \<and> waitGroups t ! wg = 0 then become i ReadySend t
           else t)
      | ReadySend \<Rightarrow>
          (if Ready t = None
           then become i Exited (t\<lparr>Ready := Some True, trace := trace t @ [EvReady]\<rparr>)
           else t)
      | ChannelStart ch wg \<Rightarrow>
          (if wg < length (waitGroups t) \<and> 0 < waitGroups t ! wg
           then become i (ChannelAccept ch)
                  (t\<lparr>waitGroups := (waitGroups t)[wg := waitGroups t ! wg - 1]\<rparr>)
           else t\<lparr>main := Panicked\<rparr>)
      | ChannelSendDone err \<Rightarrow>
          (if doneCh t = None then become i Exited (t\<lparr>doneCh := Some (Some err)\<rparr>) else t)
      | WatchSend err \<Rightarrow>
          (if reconnect t = None then become i Exited (t\<lparr>reconnect := Some err\<rparr>) else t)
      | _ \<Rightarrow> t)"

definition step :: "env \<Rightarrow> action \<Rightarrow> system \<Rightarrow> system" where
  "step env a t =
     (if main t = Panicked then t
      else (case a of
        Main pick \<Rightarrow> Start_step env pick t
      | Run i \<Rightarrow> run_goroutine i t
      | Tick i res \<Rightarrow>
          (case goroutine_at t i of
             KeepAliveLoop \<Rightarrow> (if client t = None then t\<lparr>main := Panicked\<rparr> else t)
           | _ \<Rightarrow> t)
      | TakeStop i \<Rightarrow>
          (case goroutine_at t i of
             KeepAliveLoop \<Rightarrow>
               (if stopKeepAlive t \<noteq> None then become i Exited (t\<lparr>stopKeepAlive := None\<rparr>)
                else t)
           | _ \<Rightarrow> t)
      | SessionEnds i res \<Rightarrow>
          (case goroutine_at t i of
             WatchLoop None None \<Rightarrow> t\<lparr>main := Panicked\<rparr>
           | WatchLoop (Some cl) None \<Rightarrow>
               become i (WatchLoop (Some cl) (Some (map_option External res))) t
           | _ \<Rightarrow> t)
      | TakeWatchConn i \<Rightarrow>
          (case goroutine_at t i of
             WatchLoop cl wc \<Rightarrow>
               (case watchConn t of
                  None \<Rightarrow> t
                | Some c \<Rightarrow>
                    (if \<not> c then become i Exited (t\<lparr>watchConn := None\<rparr>)
                     else t\<lparr>watchConn := None\<rparr>))
           | _ \<Rightarrow> t)
      | TakeWc i \<Rightarrow>
          (case goroutine_at t i of
             WatchLoop cl (Some err) \<Rightarrow> become i (WatchSend err) t
           | _ \<Rightarrow> t)
      | Accept i accepted dialed \<Rightarrow>
          (case goroutine_at t i of
             ChannelAccept ch \<Rightarrow>
               (case startChannel accepted dialed ch t of
                  (Some err, t) \<Rightarrow> become i (ChannelSendDone err) t
                | (None, t) \<Rightarrow> t)
           | _ \<Rightarrow> t)
      | Stop \<Rightarrow> (if doneCh t = None then t\<lparr>doneCh := Some None\<rparr> else t)
      | ReceiveReady \<Rightarrow> t\<lparr>Ready := None\<rparr>))"

definition run :: "env \<Rightarrow> action list \<Rightarrow> system \<Rightarrow> system" where
  "run env acts t = foldl (\<lambda>t a. step env a t) t acts"

fun isWatcher :: "goroutine \<Rightarrow> bool" where
  "isWatcher (WatchLoop cl wc) = True"
| "isWatcher (WatchSend err) = True"
| "isWatcher g = False"

section \<open>Notions used in the analysis of a run\<close>

text \<open>
  The goroutines a call of \<^verbatim>\<open>connect\<close> starts when \<^verbatim>\<open>dial\<close> returns nil, for the
  client \<open>cl\<close> and \<open>n\<close> channels: \<^verbatim>\<open>keepAlive\<close>, the watcher when retries are enabled,
  the goroutine that signals readiness and one goroutine per channel.
\<close>

definition started :: "system \<Rightarrow> nat option \<Rightarrow> nat \<Rightarrow> goroutine list" where
  "started t cl n =
     KeepAliveStart #
     (if 0 < ConnectionRetries t then [WatchLoop cl None] else []) @
     ReadyWait (length (waitGroups t)) #
     map (\<lambda>ch. ChannelStart ch (length (waitGroups t))) [0..<n]"

text \<open>
  The error \<open>err\<close> is on its way out of \<^verbatim>\<open>Start\<close>: it sits on \<^verbatim>\<open>done\<close>, or a goroutine
  stands at the send of it on \<^verbatim>\<open>done\<close>, or the \<^verbatim>\<open>Start\<close> goroutine has received it
  from \<^verbatim>\<open>done\<close> or returned it.
\<close>

definition reaches_done :: "error \<Rightarrow> system \<Rightarrow> bool" where
  "reaches_done err t =
     (doneCh t = Some (Some err) \<or> main t = SendDone err \<or>
      main t = DoneStopKeepAlive (Some err) \<or> main t = DoneWatchConn (Some err) \<or>
      main t = Returned (Some err) \<or> ChannelSendDone err \<in> set (goroutines t))"

text \<open>
  The state of a run with retries disabled or unbounded: no watcher among the
  goroutines; before the first wait group exists, nothing is on \<^verbatim>\<open>reconnect\<close> while the
  \<^verbatim>\<open>Start\<close> goroutine is before \<^verbatim>\<open>connect\<close> or in the reconnect arm; once it exists
  (a \<^verbatim>\<open>connect\<close> got through), it is the only one, \<^verbatim>\<open>reconnect\<close> is empty and the
  \<^verbatim>\<open>Start\<close> goroutine is neither before a \<^verbatim>\<open>connect\<close> nor in the reconnect arm.
\<close>

definition unwatched :: "system \<Rightarrow> bool" where
  "unwatched t =
     (ConnectionRetries t \<le> 0 \<and> \<not> list_ex isWatcher (goroutines t) \<and>
      (if waitGroups t = []
       then (main t = AtConnect \<or> main t = ReStopKeepAlive \<or> main t = ReWatchConn) \<longrightarrow>
              reconnect t = None
       else reconnect t = None \<and> length (waitGroups t) = 1 \<and> main t \<noteq> AtConnect \<and>
            main t \<noteq> ReStopKeepAlive \<and> main t \<noteq> ReWatchConn \<and>
            (\<forall>e. main t \<noteq> SendReconnect e)))"

section \<open>Example inputs\<close>

definition emptyHost :: SSHHost where
  "emptyHost = \<lparr>Hostname = '''', Port = '''', HostUser = '''', HostKey = '''',
                 HostLocalForward = None\<rparr>"

definition boxHost :: SSHHost where
  "boxHost = \<lparr>Hostname = ''10.0.0.5'', Port = ''2222'', HostUser = ''ops'',
               HostKey = ''/keys/box'',
               HostLocalForward = Some \<lparr>LFLocal = '':8080'', LFRemote = ''db:5432''\<rparr>\<rparr>"

text \<open>
  A world with one stanza in the ssh configuration file (for the host \<open>box\<close>), where
  every listener binds and every ssh dial is refused; and the same world with an ssh
  server that accepts every dial.
\<close>

definition boxConfig :: "string \<Rightarrow> SSHHost" where
  "boxConfig h = (if h = ''box'' then boxHost else emptyHost)"

definition refusing :: env where
  "refusing =
     \<lparr>NewSSHConfigFile = Inr boxConfig,
      UserHomeDir = Inr ''/home/mole'',
      NewPemKey = (\<lambda>path pass. Inr (length path)),
      Key_Parse = (\<lambda>k. Inr k),
      knownhosts_New = (\<lambda>f. None),
      net_Listen = (\<lambda>a. Inr (length a, a)),
      ssh_Dial = (\<lambda>a c tr. Inl ''connection refused'')\<rparr>"

definition accepting :: env where
  "accepting = refusing\<lparr>ssh_Dial := (\<lambda>a c tr. Inr (length tr))\<rparr>"

text \<open>
  Two more worlds: one where the ssh configuration file cannot be opened, and one where
  no key can be parsed.
\<close>

definition unreadable :: env where
  "unreadable = refusing\<lparr>NewSSHConfigFile := Inl ''permission denied''\<rparr>"

definition keyless :: env where
  "keyless = refusing\<lparr>Key_Parse := (\<lambda>k. Inl ''no key found'')\<rparr>"

definition boxServer :: Server where
  "boxServer = \<lparr>Name = ''box'', Address = ''10.0.0.5:2222'', User = ''ops'', Key = 9,
                 Insecure = False\<rparr>"


definition oneChannel :: "SSHChannel list" where
  "oneChannel = [\<lparr>Local = ''127.0.0.1:8080'', Remote = ''db:5432'',
                   listener = None, conn = None\<rparr>]"

text \<open>
  The tunnel \<^verbatim>\<open>New\<close> builds for that server and channel, with the three public fields
  set as the command's \<^verbatim>\<open>start\<close> sets them.
\<close>

definition boxTunnel :: "int \<Rightarrow> Tunnel" where
  "boxTunnel n =
     \<lparr>Ready = None, KeepAliveInterval = 10 * Second, ConnectionRetries = n,
      WaitAndRetry = 3 * Second, server = boxServer, channels = oneChannel, doneCh = None,
      client = None, stopKeepAlive = None, reconnect = None, watchConn = None\<rparr>"


section \<open>Properties of BuildSSHChannels\<close>

text \<open>
  Canonicalization: an address that begins with a colon gets \<open>127.0.0.1\<close> in front, any
  other address is left as it is.
\<close>

lemma expandAddress_colon: "expandAddress ('':'' @ port) = ''127.0.0.1:'' @ port"
  by (simp add: expandAddress_def)

lemma expandAddress_other: "take 1 address \<noteq> '':'' \<Longrightarrow> expandAddress address = address"
  by (simp add: expandAddress_def)


lemma expandAddress_random: "expandAddress RandomPortAddress = RandomPortAddress"
  by (simp add: expandAddress_def RandomPortAddress_def)

text \<open>
  With at least one remote address \<^verbatim>\<open>BuildSSHChannels\<close> succeeds, and its result has one
  channel per remote: the local address at an index below both lengths is the given one,
  canonicalized (but the random-port address where the locals are fewer than the remotes
  and the slot is empty), and the random-port address past the end of the locals.
\<close>

lemma BuildSSHChannels_remote_given:
  assumes "R \<noteq> []"
  shows "BuildSSHChannels env s L R =
           Inr (map (\<lambda>i. \<lparr>Local = (if i < length L then (if length L < length R \<and> L ! i = [] then RandomPortAddress else expandAddress (L ! i)) else RandomPortAddress),
                          Remote = expandAddress (R ! i), listener = None, conn = None\<rparr>)
                    [0..<length R])"
  using assms
  by (auto simp: BuildSSHChannels_def pairAddresses_def Let_def expandAddress_random)

text \<open>
  C3, as the code has it. With both lists non-empty the result has as many channels as
  there are remote addresses; that is the larger of the two lengths when the locals are
  not more than the remotes. With more locals than remotes (and at least one remote) the
  locals past the last remote are dropped. With locals and no remote the call fails with
  \<open>NoRemoteGiven\<close>.
\<close>

theorem BuildSSHChannels_length:
  "(L \<noteq> [] \<and> R \<noteq> [] \<longrightarrow>
      (\<exists>chs. BuildSSHChannels env s L R = Inr chs \<and> length chs = length R)) \<and>
   (L \<noteq> [] \<and> R \<noteq> [] \<and> length L \<le> length R \<longrightarrow>
      (\<exists>chs. BuildSSHChannels env s L R = Inr chs \<and>
             length chs = max (length L) (length R))) \<and>
   (length R < length L \<and> 0 < length R \<longrightarrow>
      (\<exists>chs. BuildSSHChannels env s L R = Inr chs \<and> length chs = length R \<and>
             map Local chs = map expandAddress (take (length R) L))) \<and>
   (L \<noteq> [] \<and> R = [] \<longrightarrow> BuildSSHChannels env s L R = Inl NoRemoteGiven)"
proof -
  have none: "L \<noteq> [] \<Longrightarrow> R = [] \<Longrightarrow> BuildSSHChannels env s L R = Inl NoRemoteGiven"
    by (cases L) (simp_all add: BuildSSHChannels_def pairAddresses_def)
  have len: "R \<noteq> [] \<Longrightarrow>
      \<exists>chs. BuildSSHChannels env s L R = Inr chs \<and> length chs = length R"
    by (simp add: BuildSSHChannels_remote_given)
  have trunc: "length R < length L \<Longrightarrow> 0 < length R \<Longrightarrow>
      \<exists>chs. BuildSSHChannels env s L R = Inr chs \<and> length chs = length R \<and>
            map Local chs = map expandAddress (take (length R) L)"
    by (auto simp: BuildSSHChannels_remote_given intro!: nth_equalityI)
  from none len trunc show ?thesis
    by (auto simp: max_def)
qed

theorem BuildSSHChannels_length_witness:
  "\<exists>chs. BuildSSHChannels refusing ''box'' [''x:1'', ''y:2''] [''a:9''] = Inr chs \<and>
         length chs = 1 \<and> map Local chs = [''x:1'']"
  using BuildSSHChannels_length [of "[''x:1'', ''y:2'']" "[''a:9'']" refusing "''box''"]
  by (simp add: expandAddress_def)

text \<open>
  C3 as stated asks for the larger of the two lengths whenever both lists are non-empty.
  Two locals and one remote give one channel, not two.
\<close>

theorem BuildSSHChannels_length_counterexample:
  "BuildSSHChannels refusing ''box'' [''x:1'', ''y:2''] [''a:9''] =
     Inr [\<lparr>Local = ''x:1'', Remote = ''a:9'', listener = None, conn = None\<rparr>] \<and>
   length [\<lparr>Local = ''x:1'', Remote = ''a:9'', listener = None, conn = None\<rparr>] \<noteq>
     max (length [''x:1'', ''y:2'']) (length [''a:9''])"
  by (simp add: BuildSSHChannels_def pairAddresses_def expandAddress_def)

text \<open>
  C4. With at least one local and more remotes than locals, the result pairs index by
  index over the remotes. The local of a pair is \<open>127.0.0.1:0\<close> where no local was
  given at that index or the one given is empty; otherwise it is the given local, with
  \<open>127.0.0.1\<close> put in front when it begins with a colon. The remote of a pair is the
  given remote, with \<open>127.0.0.1\<close> put in front when it begins with a colon.
\<close>

theorem BuildSSHChannels_pads_locals:
  assumes "0 < length L" and "length L < length R"
  shows "BuildSSHChannels env s L R =
           Inr (map (\<lambda>i. \<lparr>Local = (if i < length L \<and> L ! i \<noteq> ''''
                                    then (if take 1 (L ! i) = '':''
                                          then ''127.0.0.1'' @ L ! i else L ! i)
                                    else ''127.0.0.1:0''),
                          Remote = (if take 1 (R ! i) = '':''
                                    then ''127.0.0.1'' @ R ! i else R ! i),
                          listener = None, conn = None\<rparr>)
                    [0..<length R])"
proof -
  from assms have "R \<noteq> []" by auto
  then show ?thesis
    using assms
    by (auto simp: BuildSSHChannels_remote_given RandomPortAddress_def expandAddress_def)
qed

text \<open>
  Scenario S4 of the specification, and a call with addresses that begin with a colon,
  both from the theorem.
\<close>

theorem BuildSSHChannels_pads_locals_witness:
  "BuildSSHChannels refusing ''box'' [''x:1'', ''''] [''a:9'', ''b:9'', ''c:9''] =
     Inr [\<lparr>Local = ''x:1'', Remote = ''a:9'', listener = None, conn = None\<rparr>,
          \<lparr>Local = ''127.0.0.1:0'', Remote = ''b:9'', listener = None, conn = None\<rparr>,
          \<lparr>Local = ''127.0.0.1:0'', Remote = ''c:9'', listener = None, conn = None\<rparr>] \<and>
   BuildSSHChannels refusing ''box'' ['':8080'', ''''] ['':80'', ''b:9'', '':9''] =
     Inr [\<lparr>Local = ''127.0.0.1:8080'', Remote = ''127.0.0.1:80'', listener = None,
           conn = None\<rparr>,
          \<lparr>Local = ''127.0.0.1:0'', Remote = ''b:9'', listener = None, conn = None\<rparr>,
          \<lparr>Local = ''127.0.0.1:0'', Remote = ''127.0.0.1:9'', listener = None,
           conn = None\<rparr>]"
  using BuildSSHChannels_pads_locals
          [of "[''x:1'', '''']" "[''a:9'', ''b:9'', ''c:9'']" refusing "''box''"]
        BuildSSHChannels_pads_locals
          [of "['':8080'', '''']" "['':80'', ''b:9'', '':9'']" refusing "''box''"]
  by (simp add: upt_conv_Cons)





section \<open>Properties of the ssh client configuration\<close>




section \<open>Properties of NewServer\<close>

text \<open>
  \<^verbatim>\<open>strings.Split\<close> gives one piece more than there are separators, so \<^verbatim>\<open>args[1]\<close>
  exists where \<^verbatim>\<open>NewServer\<close> reads it.
\<close>

lemma strings_Split_length: "length (strings_Split s sep) = Suc (count_list s sep)"
  by (induction s) (auto split: list.splits)

lemma strings_Split_no_sep: "sep \<notin> set s \<Longrightarrow> strings_Split s sep = [s]"
  by (induction s) auto

lemma strings_Split_first:
  "sep \<notin> set h \<Longrightarrow> strings_Split (h @ sep # rest) sep = h # strings_Split rest sep"
  by (induction h) auto

lemma splitHostPort_plain: "CHR '':'' \<notin> set address \<Longrightarrow> splitHostPort address = (address, '''')"
  by (simp add: splitHostPort_def)

lemma splitHostPort_colon:
  "CHR '':'' \<notin> set h \<Longrightarrow> CHR '':'' \<notin> set p \<Longrightarrow> splitHostPort (h @ '':'' @ p) = (h, p)"
  by (simp add: splitHostPort_def strings_Split_first strings_Split_no_sep)

lemma reconcile_nonempty: "b \<noteq> '''' \<Longrightarrow> reconcile a b \<noteq> ''''"
  by (simp add: reconcile_def)

text \<open>
  \<^verbatim>\<open>NewServer\<close> when the configuration file can be read, with the reconciled values
  written out.
\<close>

lemma NewServer_unfold:
  assumes "NewSSHConfigFile env = Inr c"
  shows "NewServer env user address key =
     (let host = fst (splitHostPort address); h = c host in
      if host = '''' then Inl HostMissing
      else if reconcile (Hostname h) host = '''' then Inl (NoHostname host)
      else if reconcile user (HostUser h) = '''' then Inl (NoUser host)
      else (case defaultKey env (reconcile key (HostKey h)) of
              Inl err \<Rightarrow> Inl err
            | Inr path \<Rightarrow>
               (case NewPemKey env path '''' of
                  Inl err \<Rightarrow> Inl (ErrReadingKey path (External err))
                | Inr pk \<Rightarrow>
                    Inr \<lparr>Name = host,
                         Address = reconcile (Hostname h) host @ '':'' @
                                   reconcile (reconcile (snd (splitHostPort address)) (Port h)) ''22'',
                         User = reconcile user (HostUser h), Key = pk, Insecure = False\<rparr>)))"
  using assms
  by (simp add: NewServer_def Let_def split_beta reconcile_def split: sum.splits)

text \<open>
  Where the host is not empty the reconciled hostname is not empty either, so the check
  of the hostname cannot fire: no call fails with \<open>NoHostname\<close>.
\<close>

lemma NewServer_never_NoHostname: "NewServer env user address key \<noteq> Inl (NoHostname x)"
  by (auto simp: NewServer_def Let_def defaultKey_def reconcile_def split_beta
           split: sum.splits if_splits)

text \<open>
  The default key path for some home directories: \<^verbatim>\<open>filepath.Join\<close> cleans the path.
\<close>

lemma filepath_Join_id_rsa:
  "filepath_Join [''/home/mole'', ''.ssh'', ''id_rsa''] = ''/home/mole/.ssh/id_rsa''"
  "filepath_Join [''/home/mole/'', ''.ssh'', ''id_rsa''] = ''/home/mole/.ssh/id_rsa''"
  "filepath_Join [''/'', ''.ssh'', ''id_rsa''] = ''/.ssh/id_rsa''"
  "filepath_Join ['''', ''.ssh'', ''id_rsa''] = ''.ssh/id_rsa''"
  by (simp_all add: filepath_Join_def filepath_Clean_def)

text \<open>
  C5, as the code has it. Let \<open>host\<close> and \<open>port\<close> be the two parts of the address. When
  the ssh configuration file cannot be opened the call fails with the error of the
  access, before any check. Otherwise let \<open>h\<close> be the file's stanza for \<open>host\<close>. An empty
  host fails with \<open>HostMissing\<close>. The reconciled hostname (the stanza's HostName, else the
  host) is empty only when the host is. With a host, an empty reconciled user (the given
  one, else the stanza's) fails with \<open>NoUser\<close>. A server that is returned has the host as
  its name, the reconciled hostname and the port (the given one, else the stanza's, else
  22) as its address, the reconciled user, and the key read from the given path, else
  the stanza's, else \<^verbatim>\<open>.ssh/id_rsa\<close> joined to the home directory. In no case does the
  call fail with \<open>NoHostname\<close>.
\<close>

theorem NewServer_reconciles:
  assumes "host = fst (splitHostPort address)" and "port = snd (splitHostPort address)"
  shows "(\<forall>e. NewSSHConfigFile env = Inl e \<longrightarrow>
            NewServer env user address key = Inl (ErrAccessing host (External e))) \<and>
         (\<forall>c h. NewSSHConfigFile env = Inr c \<and> h = c host \<longrightarrow>
            (host = '''' \<longrightarrow> NewServer env user address key = Inl HostMissing) \<and>
            (reconcile (Hostname h) host = '''' \<longrightarrow> host = '''') \<and>
            (host \<noteq> '''' \<and> reconcile user (HostUser h) = '''' \<longrightarrow>
               NewServer env user address key = Inl (NoUser host)) \<and>
            (\<forall>s. NewServer env user address key = Inr s \<longrightarrow>
               Name s = host \<and>
               Address s = reconcile (Hostname h) host @ '':'' @
                           reconcile (reconcile port (Port h)) ''22'' \<and>
               User s = reconcile user (HostUser h) \<and>
               (\<exists>path. NewPemKey env path '''' = Inr (Key s) \<and>
                  (reconcile key (HostKey h) \<noteq> '''' \<longrightarrow> path = reconcile key (HostKey h)) \<and>
                  (reconcile key (HostKey h) = '''' \<longrightarrow>
                     (\<exists>home. UserHomeDir env = Inr home \<and>
                             path = filepath_Join [home, ''.ssh'', ''id_rsa'']))))) \<and>
         (\<forall>x. NewServer env user address key \<noteq> Inl (NoHostname x))"
proof -
  have unread: "NewServer env user address key = Inl (ErrAccessing host (External e))"
    if "NewSSHConfigFile env = Inl e" for e
    using that assms by (simp add: NewServer_def split_beta)
  have never: "\<forall>x. NewServer env user address key \<noteq> Inl (NoHostname x)"
    by (simp add: NewServer_never_NoHostname)
  have read: "(host = '''' \<longrightarrow> NewServer env user address key = Inl HostMissing) \<and>
         (reconcile (Hostname h) host = '''' \<longrightarrow> host = '''') \<and>
         (host \<noteq> '''' \<and> reconcile user (HostUser h) = '''' \<longrightarrow>
            NewServer env user address key = Inl (NoUser host)) \<and>
         (\<forall>s. NewServer env user address key = Inr s \<longrightarrow>
            Name s = host \<and>
            Address s = reconcile (Hostname h) host @ '':'' @
                        reconcile (reconcile port (Port h)) ''22'' \<and>
            User s = reconcile user (HostUser h) \<and>
            (\<exists>path. NewPemKey env path '''' = Inr (Key s) \<and>
               (reconcile key (HostKey h) \<noteq> '''' \<longrightarrow> path = reconcile key (HostKey h)) \<and>
               (reconcile key (HostKey h) = '''' \<longrightarrow>
                  (\<exists>home. UserHomeDir env = Inr home \<and>
                          path = filepath_Join [home, ''.ssh'', ''id_rsa'']))))"
    if "NewSSHConfigFile env = Inr c" and "h = c host" for c h
    unfolding NewServer_unfold [OF that(1)] using assms that(2)
    by (auto simp: Let_def defaultKey_def reconcile_nonempty reconcile_def split: sum.splits)
  from unread never read show ?thesis by blast
qed

text \<open>
  C5 as stated asks for \<open>NoHostname\<close> when the reconciled hostname is empty, and for
  \<open>HostMissing\<close> whenever the host is empty. For the address \<open>:22\<close> the host is empty, no
  stanza gives a HostName, the reconciled hostname is empty, and the call fails with
  \<open>HostMissing\<close>; and where the configuration file cannot be opened the same call fails
  with the error of the access.
\<close>

theorem NewServer_hostname_counterexample:
  "NewSSHConfigFile refusing = Inr boxConfig \<and>
   splitHostPort '':22'' = ('''', ''22'') \<and>
   reconcile (Hostname (boxConfig '''')) '''' = '''' \<and>
   NewServer refusing ''me'' '':22'' ''k'' = Inl HostMissing \<and>
   NewServer refusing ''me'' '':22'' ''k'' \<noteq> Inl (NoHostname '''') \<and>
   NewServer unreadable ''me'' '':22'' ''k'' =
     Inl (ErrAccessing '''' (External ''permission denied'')) \<and>
   NewServer unreadable ''me'' '':22'' ''k'' \<noteq> Inl HostMissing"
  by (simp add: NewServer_def splitHostPort_def refusing_def unreadable_def boxConfig_def
      emptyHost_def reconcile_def)

lemma refusing_config: "NewSSHConfigFile refusing = Inr boxConfig"
  by (simp add: refusing_def)

theorem NewServer_reconciles_witness:
  "NewServer refusing ''me'' '':22'' ''k'' = Inl HostMissing \<and>
   NewServer refusing '''' ''example.com:22'' ''k'' = Inl (NoUser ''example.com'') \<and>
   NewServer unreadable ''me'' ''box'' ''k'' =
     Inl (ErrAccessing ''box'' (External ''permission denied'')) \<and>
   NewServer refusing '''' ''box'' '''' =
     Inr \<lparr>Name = ''box'', Address = ''10.0.0.5:2222'', User = ''ops'', Key = 9,
          Insecure = False\<rparr> \<and>
   NewServer refusing ''me'' ''example.com'' '''' =
     Inr \<lparr>Name = ''example.com'', Address = ''example.com:22'', User = ''me'', Key = 22,
          Insecure = False\<rparr>"
proof -
  note cfg = refusing_config
  have 1: "splitHostPort ''box'' = (''box'', '''')"
    and 2: "splitHostPort ''example.com'' = (''example.com'', '''')"
    and 3: "splitHostPort '':22'' = ('''', ''22'')"
    and 4: "splitHostPort ''example.com:22'' = (''example.com'', ''22'')"
    by (simp_all add: splitHostPort_def)
  have a: "NewServer refusing ''me'' '':22'' ''k'' = Inl HostMissing"
    using NewServer_reconciles
            [where host = "''''" and address = "'':22''" and port = "''22''"
               and env = refusing and user = "''me''" and key = "''k''"] cfg
    by (simp add: 3)
  have b: "NewServer refusing '''' ''example.com:22'' ''k'' = Inl (NoUser ''example.com'')"
    using NewServer_reconciles
            [where host = "''example.com''" and address = "''example.com:22''"
               and port = "''22''" and env = refusing and user = "''''" and key = "''k''"] cfg
    by (simp add: 4 boxConfig_def emptyHost_def reconcile_def)
  have u: "NewServer unreadable ''me'' ''box'' ''k'' =
     Inl (ErrAccessing ''box'' (External ''permission denied''))"
    using NewServer_reconciles
            [where host = "''box''" and address = "''box''" and port = "''''"
               and env = unreadable and user = "''me''" and key = "''k''"]
    by (simp add: 1 unreadable_def)
  have c: "NewServer refusing '''' ''box'' '''' =
     Inr \<lparr>Name = ''box'', Address = ''10.0.0.5:2222'', User = ''ops'', Key = 9,
          Insecure = False\<rparr>"
    by (simp add: NewServer_def 1 refusing_def boxConfig_def boxHost_def reconcile_def
        defaultKey_def)
  have d: "NewServer refusing ''me'' ''example.com'' '''' =
     Inr \<lparr>Name = ''example.com'', Address = ''example.com:22'', User = ''me'', Key = 22,
          Insecure = False\<rparr>"
    by (simp add: NewServer_def 2 refusing_def boxConfig_def emptyHost_def reconcile_def
        defaultKey_def filepath_Join_def filepath_Clean_def)
  from a b u c d show ?thesis by simp
qed

section \<open>Properties of dial\<close>

text \<open>
  Whenever the retry loop ends: it has changed the client and the history and nothing
  else; without a positive bound it has not returned an error; and the only error it
  returns is the one of the exhausted retries.
\<close>

lemma dial_loop_ends:
  assumes "dial_loop env c r t = Some y"
  shows "snd y = t\<lparr>client := client (snd y), trace := trace (snd y)\<rparr> \<and>
         (ConnectionRetries t \<le> 0 \<longrightarrow> fst y = None) \<and>
         (fst y = None \<or> fst y = Some ErrConnection)"
proof (rule dial_loop.raw_induct
    [where P = "\<lambda>env c r t y.
         snd y = t\<lparr>client := client (snd y), trace := trace (snd y)\<rparr> \<and>
         (ConnectionRetries t \<le> 0 \<longrightarrow> fst y = None) \<and>
         (fst y = None \<or> fst y = Some ErrConnection)",
     OF _ assms], goal_cases)
  case (1 f env c retries t y)
  show ?case
  proof (cases "ssh_Dial env (Address (server t)) c (trace t)")
    case (Inr cl)
    with 1(2) show ?thesis by (auto split: if_splits)
  next
    case (Inl err)
    show ?thesis
    proof (cases "(0 < ConnectionRetries t \<and> int retries = ConnectionRetries t) \<or>
                  ConnectionRetries t < 0")
      case True
      with Inl 1(2) show ?thesis by (auto simp: Let_def split: if_splits)
    next
      case False
      let ?t = "t\<lparr>client := None, trace := trace t @ [EvDial, EvSleep (WaitAndRetry t)]\<rparr>"
      from False Inl 1(2) have "f env c (retries + 1) ?t = Some y"
        by (auto simp: Let_def split: if_splits)
      from 1(1) [OF this]
      have "snd y = ?t\<lparr>client := client (snd y), trace := trace (snd y)\<rparr>"
        and "ConnectionRetries ?t \<le> 0 \<longrightarrow> fst y = None"
        and "fst y = None \<or> fst y = Some ErrConnection"
        by blast+
      then show ?thesis by simp
    qed
  qed
qed

lemma dial_loop_frame:
  assumes "dial_loop env c r t = Some (res, t')"
  obtains cl tr where "t' = t\<lparr>client := cl, trace := tr\<rparr>"
proof -
  from dial_loop_ends [OF assms]
  have "t' = t\<lparr>client := client t', trace := trace t'\<rparr>" by simp
  then show thesis by (rule that)
qed

lemma dial_loop_no_error:
  "dial_loop env c r t = Some (res, t') \<Longrightarrow> ConnectionRetries t \<le> 0 \<Longrightarrow> res = None"
  using dial_loop_ends [of env c r t "(res, t')"] by simp

lemma dial_loop_error:
  "dial_loop env c r t = Some (Some err, t') \<Longrightarrow> err = ErrConnection"
  using dial_loop_ends [of env c r t "(Some err, t')"] by simp

text \<open>With retries disabled the loop makes one attempt and leaves by \<^verbatim>\<open>break\<close>.\<close>

lemma dial_loop_disabled:
  "ConnectionRetries t < 0 \<Longrightarrow>
   dial_loop env c r t =
     Some (None, t\<lparr>client := (case ssh_Dial env (Address (server t)) c (trace t) of
                                 Inl err \<Rightarrow> None | Inr cl \<Rightarrow> Some cl),
                    trace := trace t @ [EvDial]\<rparr>)"
  by (subst dial_loop.simps) (simp split: sum.splits)

text \<open>
  With a positive bound and an ssh server that refuses every dial, the loop returns the
  error after as many attempts as are left, each followed by the wait.
\<close>

lemma dial_loop_exhausted:
  assumes "\<forall>tr. isl (ssh_Dial env (Address (server t)) c tr)"
    and "0 < ConnectionRetries t" and "int r + int k = ConnectionRetries t"
  shows "dial_loop env c r t =
           Some (Some ErrConnection,
                 t\<lparr>client := (if k = 0 then client t else None),
                   trace := trace t @ concat (replicate k [EvDial, EvSleep (WaitAndRetry t)])\<rparr>)"
  using assms
proof (induction k arbitrary: r t)
  case 0
  then show ?case by (subst dial_loop.simps) simp
next
  case (Suc k)
  let ?t = "t\<lparr>client := None, trace := trace t @ [EvDial, EvSleep (WaitAndRetry t)]\<rparr>"
  from Suc.prems obtain err where err: "ssh_Dial env (Address (server t)) c (trace t) = Inl err"
    by (metis isl_def)
  from Suc.prems have "dial_loop env c r t = dial_loop env c (r + 1) ?t"
    by (subst dial_loop.simps) (simp add: err)
  also have "\<dots> = Some (Some ErrConnection,
                 ?t\<lparr>client := (if k = 0 then client ?t else None),
                   trace := trace ?t @ concat (replicate k [EvDial, EvSleep (WaitAndRetry ?t)])\<rparr>)"
    using Suc.prems by (intro Suc.IH) auto
  finally show ?case by simp
qed

text \<open>
  The goroutines \<^verbatim>\<open>dial\<close> starts: none when it returns an error, and otherwise
  \<^verbatim>\<open>keepAlive\<close>, followed by the watcher exactly when \<^verbatim>\<open>ConnectionRetries\<close> is positive.
\<close>

lemma dial_goroutines:
  assumes "dial env t = Some (res, t')"
  shows "goroutines t' = goroutines t \<or>
         goroutines t' = goroutines t @ KeepAliveStart #
           (if 0 < ConnectionRetries t then [WatchLoop (client t') None] else [])"
proof -
  define t2 where "t2 = (case client t of Some cl \<Rightarrow> t\<lparr>trace := trace t @ [EvClose cl]\<rparr>
                          | None \<Rightarrow> t)"
  have t2: "goroutines t2 = goroutines t" "ConnectionRetries t2 = ConnectionRetries t"
    "server t2 = server t"
    by (simp_all add: t2_def split: option.splits)
  show ?thesis
  proof (cases "sshClientConfig env (server t)")
    case (Inl e)
    with assms t2 show ?thesis by (auto simp: dial_def t2_def [symmetric])
  next
    case (Inr c)
    show ?thesis
    proof (cases "dial_loop env c 0 t2")
      case None
      with assms Inr show ?thesis by (simp add: dial_def t2_def [symmetric] t2)
    next
      case (Some y)
      obtain r t3 where y: "y = (r, t3)" by force
      with Some obtain cl3 tr3 where "t3 = t2\<lparr>client := cl3, trace := tr3\<rparr>"
        by (auto elim: dial_loop_frame)
      then have t3: "goroutines t3 = goroutines t" "ConnectionRetries t3 = ConnectionRetries t"
        using t2 by simp_all
      with assms Inr Some y show ?thesis
        by (cases r) (auto simp: dial_def t2_def [symmetric] t2 go_def Let_def)
    qed
  qed
qed

text \<open>
  C6, as the code has it, for a negative \<^verbatim>\<open>ConnectionRetries\<close>. In either case the
  history first grows by the close of the old client, if there was one. When the client
  configuration cannot be built, \<^verbatim>\<open>dial\<close> returns that error and does nothing else: no
  dial is made. When it can, \<^verbatim>\<open>dial\<close> returns a nil error after one ssh dial and no
  wait; the client is the new one if the dial succeeded and nil if it failed; the only
  goroutine started is \<^verbatim>\<open>keepAlive\<close>.
\<close>

theorem dial_retries_disabled:
  assumes "ConnectionRetries t < 0"
  shows "(let closing = (case client t of Some cl \<Rightarrow> [EvClose cl] | None \<Rightarrow> [])
          in case sshClientConfig env (server t) of
               Inl e \<Rightarrow>
                 dial env t = Some (Some (ErrClientConfig e), t\<lparr>trace := trace t @ closing\<rparr>)
             | Inr c \<Rightarrow>
                 (\<exists>t'. dial env t = Some (None, t') \<and>
                       trace t' = trace t @ closing @ [EvDial] \<and>
                       client t' =
                         (case ssh_Dial env (Address (server t)) c (trace t @ closing) of
                            Inl err \<Rightarrow> None | Inr cl \<Rightarrow> Some cl) \<and>
                       goroutines t' = goroutines t @ [KeepAliveStart]))"
  using assms
  by (cases "client t"; cases "sshClientConfig env (server t)")
     (simp_all add: dial_def dial_loop_disabled go_def)

lemma Start_init_fields [simp]:
  "main (Start_init tun) = AtConnect" "goroutines (Start_init tun) = []"
  "waitGroups (Start_init tun) = []" "trace (Start_init tun) = []"
  "Ready (Start_init tun) = Ready tun"
  "KeepAliveInterval (Start_init tun) = KeepAliveInterval tun"
  "ConnectionRetries (Start_init tun) = ConnectionRetries tun"
  "WaitAndRetry (Start_init tun) = WaitAndRetry tun"
  "server (Start_init tun) = server tun" "channels (Start_init tun) = channels tun"
  "doneCh (Start_init tun) = doneCh tun" "client (Start_init tun) = client tun"
  "stopKeepAlive (Start_init tun) = stopKeepAlive tun"
  "reconnect (Start_init tun) = reconnect tun" "watchConn (Start_init tun) = watchConn tun"
  by (simp_all add: Start_init_def Tunnel.extend_def system.defs)

lemma boxServer_config:
  "sshClientConfig refusing boxServer =
     Inr \<lparr>cfgUser = ''ops'', cfgAuth = [9],
          cfgHostKeyCallback = KnownHosts ''/home/mole/.ssh/known_hosts'',
          cfgTimeout = 3 * Second\<rparr>"
  by (simp add: sshClientConfig_def knownHostsCallback_def refusing_def boxServer_def
      filepath_Join_def filepath_Clean_def)

theorem dial_retries_disabled_witness:
  "(\<exists>t'. dial refusing (Start_init (boxTunnel (- 1))) = Some (None, t') \<and>
         trace t' = [EvDial] \<and> client t' = None \<and> goroutines t' = [KeepAliveStart]) \<and>
   (\<exists>t'. dial keyless (Start_init (boxTunnel (- 1))) =
            Some (Some (ErrClientConfig (External ''no key found'')), t') \<and>
         trace t' = [] \<and> client t' = None \<and> goroutines t' = [])"
proof -
  let ?t = "Start_init (boxTunnel (- 1))"
  have t: "ConnectionRetries ?t < 0" "server ?t = boxServer" "client ?t = None"
    by (simp_all add: boxTunnel_def)
  have refused: "ssh_Dial refusing a c tr = Inl ''connection refused''" for a c tr
    by (simp add: refusing_def)
  have keyless: "sshClientConfig keyless boxServer = Inl (External ''no key found'')"
    by (simp add: sshClientConfig_def keyless_def)
  from dial_retries_disabled [OF t(1), of refusing] t boxServer_config refused
  have a: "\<exists>t'. dial refusing ?t = Some (None, t') \<and>
         trace t' = [EvDial] \<and> client t' = None \<and> goroutines t' = [KeepAliveStart]"
    by simp
  from dial_retries_disabled [OF t(1), of keyless] t keyless
  have b: "\<exists>t'. dial keyless ?t =
            Some (Some (ErrClientConfig (External ''no key found'')), t') \<and>
         trace t' = [] \<and> client t' = None \<and> goroutines t' = []"
    by simp
  from a b show ?thesis by simp
qed

text \<open>
  C6 as stated has one dial and a nil error for every tunnel with a negative
  \<^verbatim>\<open>ConnectionRetries\<close>. Where no key can be parsed, \<^verbatim>\<open>dial\<close> for such a tunnel returns
  the error of the client configuration, and its history holds no dial.
\<close>

theorem dial_retries_disabled_counterexample:
  "ConnectionRetries (Start_init (boxTunnel (- 1))) < 0 \<and>
   map_option fst (dial keyless (Start_init (boxTunnel (- 1)))) =
     Some (Some (ErrClientConfig (External ''no key found''))) \<and>
   map_option (\<lambda>(r, t'). count_list (trace t') EvDial)
     (dial keyless (Start_init (boxTunnel (- 1)))) = Some 0"
  by (simp add: dial_def sshClientConfig_def keyless_def boxTunnel_def boxServer_def)

section \<open>Properties of connect\<close>

lemma Listen_channels_error:
  "Listen_channels env chs = (Some err, chs') \<Longrightarrow> \<exists>m. err = External m"
  by (induction chs arbitrary: chs') (auto split: if_splits sum.splits prod.splits)

lemma spawn_channels:
  "foldl (\<lambda>t ch. go (ChannelStart ch wg) t) t xs =
     t\<lparr>goroutines := goroutines t @ map (\<lambda>ch. ChannelStart ch wg) xs\<rparr>"
  by (induction xs arbitrary: t) (simp_all add: go_def)

lemma spawn_channels_unfolded:
  "foldl (\<lambda>t ch. t\<lparr>goroutines := goroutines t @ [ChannelStart ch wg]\<rparr>) (t::system) xs =
     t\<lparr>goroutines := goroutines t @ map (\<lambda>ch. ChannelStart ch wg) xs\<rparr>"
  using spawn_channels [of wg t xs] by (simp add: go_def)

text \<open>
  What \<^verbatim>\<open>connect\<close> does, by its five ways out: \<^verbatim>\<open>Listen\<close> failed; \<^verbatim>\<open>dial\<close> never
  returns; the client configuration could not be built; the retries are exhausted; or
  \<^verbatim>\<open>dial\<close> returned nil and the goroutines are started.
\<close>

lemma connect_cases:
  obtains
    (listen) m chs where "connect env t = t\<lparr>channels := chs, main := SendDone (External m)\<rparr>"
  | (hung) chs where "connect env t = t\<lparr>channels := chs, main := Hung\<rparr>"
  | (config) e chs tr where
      "connect env t = t\<lparr>channels := chs, trace := tr, main := SendReconnect (ErrClientConfig e)\<rparr>"
      "sshClientConfig env (server t) = Inl e"
  | (exhausted) chs cl tr where "0 < ConnectionRetries t"
      "connect env t = t\<lparr>channels := chs, client := cl, trace := tr,
                           main := SendReconnect ErrConnection\<rparr>"
  | (connected) chs cl tr where
      "connect env t = t\<lparr>channels := chs, client := cl, trace := tr,
                           goroutines := goroutines t @ started t cl (length chs),
                           waitGroups := waitGroups t @ [length chs], main := AtSelect\<rparr>"
proof -
  obtain r chs where L: "Listen_channels env (channels t) = (r, chs)" by force
  define t1 where "t1 = t\<lparr>channels := chs\<rparr>"
  define t2 where "t2 = (case client t1 of Some cl \<Rightarrow> t1\<lparr>trace := trace t1 @ [EvClose cl]\<rparr>
                          | None \<Rightarrow> t1)"
  define tr2 where "tr2 = trace t2"
  have t2: "t2 = t\<lparr>channels := chs, trace := tr2\<rparr>"
    by (simp add: tr2_def t2_def t1_def split: option.splits)
  have n2: "ConnectionRetries t2 = ConnectionRetries t"
    by (simp add: t2)
  show thesis
  proof (cases r)
    case (Some err)
    with L obtain m where "err = External m" by (auto dest: Listen_channels_error)
    with Some L have "connect env t = t\<lparr>channels := chs, main := SendDone (External m)\<rparr>"
      by (simp add: connect_def Listen_def)
    then show ?thesis by (rule listen)
  next
    case None
    show ?thesis
    proof (cases "sshClientConfig env (server t)")
      case (Inl e)
      with None L have "connect env t = t2\<lparr>main := SendReconnect (ErrClientConfig e)\<rparr>"
        by (simp add: connect_def Listen_def dial_def t2_def t1_def split: option.splits)
      then have "connect env t =
          t\<lparr>channels := chs, trace := tr2, main := SendReconnect (ErrClientConfig e)\<rparr>"
        by (simp add: t2)
      then show ?thesis using Inl by (rule config)
    next
      case (Inr c)
      have dial: "dial env t1 =
          (case dial_loop env c 0 t2 of
             None \<Rightarrow> None
           | Some (Some err, t) \<Rightarrow> Some (Some err, t)
           | Some (None, t) \<Rightarrow>
               Some (None,
                 t\<lparr>goroutines := goroutines t @ KeepAliveStart #
                      (if 0 < ConnectionRetries t then [WatchLoop (client t) None] else [])\<rparr>))"
        using Inr
        by (simp add: dial_def t2_def t1_def go_def Let_def
            split: option.splits prod.splits)
      show ?thesis
      proof (cases "dial_loop env c 0 t2")
        case dl: None
        with None L dial have "connect env t = t1\<lparr>main := Hung\<rparr>"
          by (simp add: connect_def Listen_def t1_def)
        then have "connect env t = t\<lparr>channels := chs, main := Hung\<rparr>"
          by (simp add: t1_def)
        then show ?thesis by (rule hung)
      next
        case (Some y)
        obtain res t3 where y: "y = (res, t3)" by force
        with Some obtain cl3 tr3 where "t3 = t2\<lparr>client := cl3, trace := tr3\<rparr>"
          by (auto elim: dial_loop_frame)
        then have t3: "t3 = t\<lparr>channels := chs, client := cl3, trace := tr3\<rparr>"
          by (simp add: t2)
        show ?thesis
        proof (cases res)
          case res: (Some err)
          from Some y res have err: "err = ErrConnection"
            by (auto dest: dial_loop_error)
          from Some y res have pos: "0 < ConnectionRetries t"
            using dial_loop_no_error [of env c 0 t2 res t3] n2 by fastforce
          from None L dial Some y res
          have "connect env t = t3\<lparr>main := SendReconnect err\<rparr>"
            by (simp add: connect_def Listen_def t1_def)
          then have "connect env t =
              t\<lparr>channels := chs, client := cl3, trace := tr3,
                main := SendReconnect ErrConnection\<rparr>"
            by (simp add: t3 err)
          with pos show ?thesis by (rule exhausted)
        next
          case res: None
          from None L dial Some y res
          have "connect env t =
              t\<lparr>channels := chs, client := cl3, trace := tr3,
                goroutines := goroutines t @ started t cl3 (length chs),
                waitGroups := waitGroups t @ [length chs], main := AtSelect\<rparr>"
            by (simp add: connect_def Listen_def t1_def t3 Let_def go_def
                spawn_channels_unfolded started_def)
          then show ?thesis by (rule connected)
        qed
      qed
    qed
  qed
qed

text \<open>
  \<^verbatim>\<open>connect\<close> when every listener binds, no client is set, the client configuration can
  be built and the ssh server refuses every dial, with a positive bound on the retries:
  as many dials as the bound, each followed by the wait, and then the send of the error
  on \<^verbatim>\<open>reconnect\<close>.
\<close>

lemma connect_exhausted:
  assumes "Listen_channels env (channels t) = (None, chs)" and "client t = None"
    and "sshClientConfig env (server t) = Inr c"
    and "\<forall>tr. isl (ssh_Dial env (Address (server t)) c tr)"
    and "0 < ConnectionRetries t"
  shows "connect env t =
           t\<lparr>channels := chs, client := None,
             trace := trace t @ concat (replicate (nat (ConnectionRetries t))
                                           [EvDial, EvSleep (WaitAndRetry t)]),
             main := SendReconnect ErrConnection\<rparr>"
proof -
  let ?t = "t\<lparr>channels := chs\<rparr>"
  have "dial_loop env c 0 ?t =
          Some (Some ErrConnection,
                ?t\<lparr>client := (if nat (ConnectionRetries ?t) = 0 then client ?t else None),
                   trace := trace ?t @ concat (replicate (nat (ConnectionRetries ?t))
                                                 [EvDial, EvSleep (WaitAndRetry ?t)])\<rparr>)"
    using assms by (intro dial_loop_exhausted) simp_all
  with assms show ?thesis
    by (simp add: connect_def Listen_def dial_def)
qed

section \<open>Properties of a run of Start\<close>


lemma goroutine_at_cases:
  "goroutine_at t i = Exited \<or> goroutine_at t i \<in> set (goroutines t)"
  by (simp add: goroutine_at_def)

lemma goroutine_at_mem:
  "goroutine_at t i = g \<Longrightarrow> g \<noteq> Exited \<Longrightarrow> g \<in> set (goroutines t)"
  using goroutine_at_cases [of t i] by auto

lemma in_set_become:
  "g \<in> set (goroutines (become i g' t)) \<Longrightarrow> g = g' \<or> g \<in> set (goroutines t)"
  using set_update_subset_insert [of "goroutines t" i g'] by (auto simp: become_def)

lemma become_fields [simp]:
  "main (become i g t) = main t" "doneCh (become i g t) = doneCh t"
  "reconnect (become i g t) = reconnect t" "waitGroups (become i g t) = waitGroups t"
  "ConnectionRetries (become i g t) = ConnectionRetries t"
  "client (become i g t) = client t" "trace (become i g t) = trace t"
  by (simp_all add: become_def)

lemma startChannel_error:
  "startChannel accepted dialed ch t = (Some err, t') \<Longrightarrow> err \<noteq> ErrConnection"
  by (auto simp: startChannel_def Let_def split: sum.splits if_splits option.splits)

lemma startChannel_frame:
  "startChannel accepted dialed ch t = (r, t') \<Longrightarrow>
     main t' = main t \<and> doneCh t' = doneCh t \<and> reconnect t' = reconnect t \<and>
     waitGroups t' = waitGroups t \<and> ConnectionRetries t' = ConnectionRetries t \<and>
     (goroutines t' = goroutines t \<or> goroutines t' = goroutines t @ [Copying, Copying])"
  by (auto simp: startChannel_def Let_def go_def split: sum.splits if_splits option.splits)

subsection \<open>The error of the exhausted retries never reaches the caller\<close>

lemma Start_step_reaches_done:
  assumes "\<not> reaches_done ErrConnection t"
  shows "\<not> reaches_done ErrConnection (Start_step env pick t)"
proof (cases "main t")
  case AtConnect
  then have "Start_step env pick t = connect env t" by (simp add: Start_step_def)
  with assms show ?thesis
    by (cases rule: connect_cases [of env t])
       (auto simp: reaches_done_def started_def)
qed (use assms in \<open>auto simp: Start_step_def reaches_done_def closeClient_def
       split: option.splits if_splits\<close>)

lemma run_goroutine_reaches_done:
  assumes "\<not> reaches_done ErrConnection t"
  shows "\<not> reaches_done ErrConnection (run_goroutine i t)"
proof (cases "goroutine_at t i")
  case (ChannelSendDone err)
  then have "ChannelSendDone err \<in> set (goroutines t)" by (rule goroutine_at_mem) simp
  with assms ChannelSendDone show ?thesis
    by (auto simp: run_goroutine_def reaches_done_def dest!: in_set_become)
qed (use assms in \<open>auto simp: run_goroutine_def reaches_done_def dest!: in_set_become\<close>)

lemma step_reaches_done:
  assumes "\<not> reaches_done ErrConnection t"
  shows "\<not> reaches_done ErrConnection (step env a t)"
proof (cases "main t = Panicked")
  case True
  with assms show ?thesis by (simp add: step_def)
next
  case False
  show ?thesis
  proof (cases a)
    case (Main pick)
    with False assms show ?thesis by (simp add: step_def Start_step_reaches_done)
  next
    case (Run i)
    with False assms show ?thesis by (simp add: step_def run_goroutine_reaches_done)
  next
    case (Accept i accepted dialed)
    obtain r t' where sc:
      "startChannel accepted dialed
         (case goroutine_at t i of ChannelAccept ch \<Rightarrow> ch | _ \<Rightarrow> 0) t = (r, t')"
      by force
    from startChannel_frame [OF sc] startChannel_error [of accepted dialed _ t _ t'] sc assms
    show ?thesis using False Accept
      by (cases "goroutine_at t i"; cases r)
         (auto simp: step_def reaches_done_def dest!: in_set_become)
  qed (use False assms in \<open>auto simp: step_def reaches_done_def
          split: goroutine.splits option.splits if_splits dest!: in_set_become\<close>)
qed

lemma run_reaches_done:
  "\<not> reaches_done ErrConnection t \<Longrightarrow> \<not> reaches_done ErrConnection (run env acts t)"
  by (induction acts arbitrary: t) (simp_all add: run_def step_reaches_done)

text \<open>
  C1 on the code. Take a tunnel as \<^verbatim>\<open>New\<close> builds it, with a positive
  \<^verbatim>\<open>ConnectionRetries\<close>, in a world where every listener binds and every ssh dial
  fails. Whatever the schedule, \<^verbatim>\<open>Start\<close> never returns the error of the exhausted
  retries. When the \<^verbatim>\<open>Start\<close> goroutine runs alone: after \<^verbatim>\<open>connect\<close> and its send the
  error sits on \<^verbatim>\<open>reconnect\<close> and \<^verbatim>\<open>done\<close> is empty, with as many dials made as the
  bound, each followed by the wait; three steps later the reconnect arm has called
  \<^verbatim>\<open>Close\<close> on the nil client and the program has stopped on the nil pointer
  dereference.
\<close>

theorem Start_retries_exhausted:
  assumes "New srv chs = Inr tun0"
    and "tun = tun0\<lparr>ConnectionRetries := N, WaitAndRetry := w, KeepAliveInterval := k\<rparr>"
    and "0 < N"
    and "fst (Listen_channels env chs) = None"
    and "sshClientConfig env srv = Inr c"
    and "\<forall>tr. isl (ssh_Dial env (Address srv) c tr)"
  shows "(\<forall>acts. main (run env acts (Start_init tun)) \<noteq> Returned (Some ErrConnection)) \<and>
         (let t = run env [Main pick, Main pick] (Start_init tun)
          in main t = AtSelect \<and> reconnect t = Some (Some ErrConnection) \<and>
             doneCh t = None \<and> client t = None \<and>
             trace t = concat (replicate (nat N) [EvDial, EvSleep w])) \<and>
         (let t = run env [Main pick, Main pick, Main pick, Main pick, Main pick]
                    (Start_init tun)
          in main t = Panicked \<and> count_list (trace t) EvDial = nat N)"
proof -
  from assms(1) have tun0: "tun0 = \<lparr>Ready = None, KeepAliveInterval = 0, ConnectionRetries = 0,
      WaitAndRetry = 0, server = srv, channels = chs, doneCh = None, client = None,
      stopKeepAlive = None, reconnect = None, watchConn = None\<rparr>"
    by (auto simp: New_def split: option.splits)
  let ?t0 = "Start_init tun"
  have never: "main (run env acts ?t0) \<noteq> Returned (Some ErrConnection)" for acts
  proof -
    have "\<not> reaches_done ErrConnection ?t0"
      by (simp add: reaches_done_def assms(2) tun0)
    then have "\<not> reaches_done ErrConnection (run env acts ?t0)"
      by (rule run_reaches_done)
    then show ?thesis by (simp add: reaches_done_def)
  qed
  obtain chs' where L: "Listen_channels env (channels ?t0) = (None, chs')"
    using assms(4) by (cases "Listen_channels env chs") (simp add: assms(2) tun0)
  have c1: "connect env ?t0 =
      ?t0\<lparr>channels := chs', client := None,
          trace := concat (replicate (nat N) [EvDial, EvSleep w]),
          main := SendReconnect ErrConnection\<rparr>"
    using connect_exhausted [OF L, of c] assms(3,5,6) by (simp add: assms(2) tun0)
  have dials: "count_list (concat (replicate n [EvDial, EvSleep w])) EvDial = n" for n
    by (induction n) simp_all
  have two: "run env [Main pick, Main pick] ?t0 =
      ?t0\<lparr>channels := chs', client := None,
          trace := concat (replicate (nat N) [EvDial, EvSleep w]),
          reconnect := Some (Some ErrConnection), main := AtSelect\<rparr>"
    by (simp add: run_def step_def Start_step_def c1) (simp add: assms(2) tun0)
  have five: "run env [Main pick, Main pick, Main pick, Main pick, Main pick] ?t0 =
      run env [Main pick, Main pick, Main pick] (run env [Main pick, Main pick] ?t0)"
    by (simp add: run_def)
  have "main (run env [Main pick, Main pick, Main pick, Main pick, Main pick] ?t0) = Panicked \<and>
        trace (run env [Main pick, Main pick, Main pick, Main pick, Main pick] ?t0) =
          concat (replicate (nat N) [EvDial, EvSleep w])"
    unfolding five two
    by (simp add: run_def step_def Start_step_def closeClient_def assms(2) tun0)
  with never two dials show ?thesis
    by (simp add: Let_def assms(2) tun0)
qed

theorem Start_retries_exhausted_witness:
  "(\<forall>acts. main (run refusing acts (Start_init (boxTunnel 2))) \<noteq> Returned (Some ErrConnection)) \<and>
   (let t = run refusing [Main True, Main True] (Start_init (boxTunnel 2))
    in main t = AtSelect \<and> reconnect t = Some (Some ErrConnection) \<and> doneCh t = None \<and>
       client t = None \<and>
       trace t = [EvDial, EvSleep (3 * Second), EvDial, EvSleep (3 * Second)]) \<and>
   (let t = run refusing [Main True, Main True, Main True, Main True, Main True]
              (Start_init (boxTunnel 2))
    in main t = Panicked \<and> count_list (trace t) EvDial = 2)"
proof -
  have new: "New boxServer oneChannel =
      Inr \<lparr>Ready = None, KeepAliveInterval = 0, ConnectionRetries = 0,
      WaitAndRetry = 0, server = boxServer, channels = oneChannel, doneCh = None, client = None,
      stopKeepAlive = None, reconnect = None, watchConn = None\<rparr>"
    by (simp add: New_def oneChannel_def)
  have listen: "fst (Listen_channels refusing oneChannel) = None"
    by (simp add: oneChannel_def refusing_def)
  have refused: "\<forall>tr. isl (ssh_Dial refusing (Address boxServer) c tr)" for c
    by (simp add: refusing_def)
  from Start_retries_exhausted
         [where tun = "boxTunnel 2" and N = 2 and w = "3 * Second" and k = "10 * Second"
            and pick = True, OF new _ _ listen boxServer_config refused]
  show ?thesis
    by (simp add: boxTunnel_def numeral_2_eq_2)
qed

subsection \<open>The ready signal\<close>

text \<open>
  C2 on the code, for a tunnel with one channel and three retries and an ssh server
  that accepts every dial. The schedule: \<^verbatim>\<open>connect\<close>; the channel's goroutine passes
  \<^verbatim>\<open>once.Do\<close>; the wait group is released and \<^verbatim>\<open>Ready\<close> is sent; an observer receives
  it; the session ends and the watcher sends on \<^verbatim>\<open>reconnect\<close>; the \<^verbatim>\<open>Start\<close> goroutine
  takes the reconnect arm and calls \<^verbatim>\<open>connect\<close> again, which starts a second goroutine
  for the channel and a second one for the signal; these run as the first ones did.
  At the end \<^verbatim>\<open>Start\<close> is still in its loop and \<^verbatim>\<open>Ready\<close> has been sent twice.
\<close>

theorem ready_sent_again_after_reconnect:
  "(let t = run accepting
       [Main True, Run 3, Run 2, Run 2, ReceiveReady,
        SessionEnds 1 (Some ''EOF''), TakeWc 1, Run 1,
        Main True, Main True, Main True, Main True, Run 7, Run 6, Run 6]
       (Start_init (boxTunnel 3))
    in count_list (trace t) EvReady = 2 \<and> main t = AtSelect \<and>
       goroutine_at t 3 = ChannelAccept 0 \<and> goroutine_at t 7 = ChannelAccept 0)"
  by code_simp

subsection \<open>Retries disabled or unbounded: no watcher\<close>

lemma Start_step_unwatched:
  assumes "unwatched t"
  shows "unwatched (Start_step env pick t)"
proof (cases "main t")
  case AtConnect
  then have "Start_step env pick t = connect env t" by (simp add: Start_step_def)
  with assms AtConnect show ?thesis
    by (cases rule: connect_cases [of env t])
       (auto simp: unwatched_def started_def list_ex_iff split: if_splits)
qed (use assms in \<open>auto simp: Start_step_def unwatched_def closeClient_def
       split: option.splits if_splits\<close>)

lemma run_goroutine_unwatched:
  assumes "unwatched t"
  shows "unwatched (run_goroutine i t)"
proof (cases "goroutine_at t i")
  case (WatchSend err)
  then have "WatchSend err \<in> set (goroutines t)" by (rule goroutine_at_mem) simp
  with assms show ?thesis by (auto simp: unwatched_def list_ex_iff)
qed (use assms in \<open>auto simp: run_goroutine_def unwatched_def list_ex_iff
        split: if_splits dest!: in_set_become\<close>)

lemma unwatched_not_watcher: "unwatched t \<Longrightarrow> \<not> isWatcher (goroutine_at t i)"
  using goroutine_at_cases [of t i] by (auto simp: unwatched_def list_ex_iff)

text \<open>Where no watcher runs, the actions of a watcher change nothing.\<close>

lemma watcher_actions_ignored:
  assumes "unwatched t"
  shows "step env (SessionEnds i res) t = t" and "step env (TakeWatchConn i) t = t"
    and "step env (TakeWc i) t = t"
  using unwatched_not_watcher [OF assms, of i]
  by (cases "goroutine_at t i"; simp add: step_def)+

lemma step_unwatched:
  assumes "unwatched t"
  shows "unwatched (step env a t)"
proof (cases "main t = Panicked")
  case True
  with assms show ?thesis by (simp add: step_def)
next
  case False
  show ?thesis
  proof (cases a)
    case (Main pick)
    with False assms show ?thesis by (simp add: step_def Start_step_unwatched)
  next
    case (Run i)
    with False assms show ?thesis by (simp add: step_def run_goroutine_unwatched)
  next
    case (Accept i accepted dialed)
    obtain r t' where sc:
      "startChannel accepted dialed
         (case goroutine_at t i of ChannelAccept ch \<Rightarrow> ch | _ \<Rightarrow> 0) t = (r, t')"
      by force
    from startChannel_frame [OF sc] sc assms
    show ?thesis using False Accept
      by (cases "goroutine_at t i"; cases r)
         (auto simp: step_def unwatched_def list_ex_iff split: if_splits dest!: in_set_become)
  next
    case (SessionEnds i res)
    with assms show ?thesis by (simp add: watcher_actions_ignored)
  next
    case (TakeWatchConn i)
    with assms show ?thesis by (simp add: watcher_actions_ignored)
  next
    case (TakeWc i)
    with assms show ?thesis by (simp add: watcher_actions_ignored)
  qed (use False assms in \<open>auto simp: step_def unwatched_def list_ex_iff
          split: goroutine.splits option.splits if_splits dest!: in_set_become\<close>)
qed

lemma run_unwatched: "unwatched t \<Longrightarrow> unwatched (run env acts t)"
  by (induction acts arbitrary: t) (simp_all add: run_def step_unwatched)

text \<open>
  C8. Take a tunnel with \<^verbatim>\<open>ConnectionRetries\<close> zero or negative and nothing on
  \<^verbatim>\<open>reconnect\<close> (as \<^verbatim>\<open>New\<close> leaves it), and any state \<open>t\<close> its \<^verbatim>\<open>Start\<close> reaches, under
  any schedule. No goroutine of \<open>t\<close> is a watcher, and a \<^verbatim>\<open>dial\<close> from \<open>t\<close> starts
  \<^verbatim>\<open>keepAlive\<close> at most. The end of a session changes nothing in \<open>t\<close>. Once a
  \<^verbatim>\<open>connect\<close> has got through (its wait group exists), \<^verbatim>\<open>reconnect\<close> is empty, the
  \<^verbatim>\<open>Start\<close> goroutine is neither in the reconnect arm nor before a \<^verbatim>\<open>connect\<close>, and no
  second \<^verbatim>\<open>connect\<close> has got through.
\<close>

theorem no_watcher_without_retries:
  assumes "ConnectionRetries tun \<le> 0" and "reconnect tun = None"
    and "t = run env acts (Start_init tun)"
  shows "\<not> list_ex isWatcher (goroutines t) \<and>
         (\<forall>r t'. dial env t = Some (r, t') \<longrightarrow>
            goroutines t' = goroutines t \<or> goroutines t' = goroutines t @ [KeepAliveStart]) \<and>
         step env (SessionEnds i res) t = t \<and>
         (waitGroups t \<noteq> [] \<longrightarrow>
            reconnect t = None \<and> main t \<noteq> ReStopKeepAlive \<and> main t \<noteq> ReWatchConn \<and>
            main t \<noteq> AtConnect \<and> length (waitGroups t) = 1)"
proof -
  from assms(1,2) have "unwatched (Start_init tun)"
    by (simp add: unwatched_def)
  then have inv: "unwatched t"
    unfolding assms(3) by (rule run_unwatched)
  then have "ConnectionRetries t \<le> 0" by (simp add: unwatched_def)
  then have "goroutines t' = goroutines t \<or> goroutines t' = goroutines t @ [KeepAliveStart]"
    if "dial env t = Some (r, t')" for r t'
    using dial_goroutines [OF that] by auto
  with inv watcher_actions_ignored(1) [OF inv] show ?thesis
    by (auto simp: unwatched_def split: if_splits)
qed

theorem no_watcher_without_retries_witness:
  "(let t = run accepting [Main True, Run 2, Run 1, Run 1, Run 0] (Start_init (boxTunnel 0))
    in \<not> list_ex isWatcher (goroutines t) \<and>
       step accepting (SessionEnds 0 (Some ''EOF'')) t = t \<and>
       waitGroups t = [0] \<and> client t = Some 0 \<and> reconnect t = None \<and> main t = AtSelect \<and>
       Ready t = Some True)"
proof -
  define t where
    "t = run accepting [Main True, Run 2, Run 1, Run 1, Run 0] (Start_init (boxTunnel 0))"
  have "ConnectionRetries (boxTunnel 0) \<le> 0" "reconnect (boxTunnel 0) = None"
    by (simp_all add: boxTunnel_def)
  from no_watcher_without_retries [OF this t_def, of 0 "Some ''EOF''"]
  have "\<not> list_ex isWatcher (goroutines t) \<and> step accepting (SessionEnds 0 (Some ''EOF'')) t = t"
    by simp
  moreover have "waitGroups t = [0] \<and> client t = Some 0 \<and> reconnect t = None \<and>
      main t = AtSelect \<and> Ready t = Some True"
    unfolding t_def by code_simp
  ultimately show ?thesis by (simp add: t_def)
qed

subsection \<open>A connection accepted while the client is nil\<close>





end
